theory Spec2Isabelle
  imports Main "HOL-Library.Word"
begin

section \<open>Errors, mutators and Listers\<close>

text \<open>
  A Go \<^verbatim>\<open>error\<close> made by \<^verbatim>\<open>errors.New(msg)\<close> is identified by its message. The
  interface value \<^verbatim>\<open>nil\<close> is \<open>None\<close> of \<open>error option\<close>.
\<close>

datatype error = errors_New string

text \<open>
  An option function \<^verbatim>\<open>func(args *T) error\<close> receives a pointer to the options value, may
  assign through it, and returns an error or nil: it is a function from the options value
  to the returned error and the options value it leaves behind. Option functions are taken
  to return (a closure that panics or loops is outside this model).
\<close>

type_synonym 'o mutator = "'o \<Rightarrow> error option \<times> 'o"

text \<open>
  \<^verbatim>\<open>builderutil.Lister[T]\<close> is the interface with the one method
  \<^verbatim>\<open>List() []func(args *T) error\<close>; a value of it is represented by what \<^verbatim>\<open>List\<close> returns.
\<close>

type_synonym 'o Lister = "'o mutator list"

text \<open>
  A Go call either returns its results or panics (here: a nil pointer dereference).
  A pointer result \<^verbatim>\<open>*T\<close> is \<open>'a option\<close>, with \<open>None\<close> for \<^verbatim>\<open>nil\<close>, and the result
  pair \<^verbatim>\<open>(cfg *T, err error)\<close> is a pair of options.
\<close>

datatype 'a outcome = Return 'a | Panic

section \<open>builderutil.Build\<close>

text \<open>
  Modelled from the spec: the inner loop of \<^verbatim>\<open>builderutil.Build\<close>. The package
  \<^verbatim>\<open>github.com/zeroxsolutions/strike/builderutil\<close> is imported by every constructor
  and its source is not among the source files. Spec 4.2, steps 2 and 3: for each mutator of
  a sequence, in order, invoke it against the Options instance; if an invocation signals
  an error, stop immediately and propagate that error; no further mutators run.
\<close>

fun apply_mutators :: "'o mutator list \<Rightarrow> 'o \<Rightarrow> error option \<times> 'o" where
  "apply_mutators [] args = (None, args)"
| "apply_mutators (setArg # rest) args =
     (case setArg args of
        (Some err, args') \<Rightarrow> (Some err, args')
      | (None, args') \<Rightarrow> apply_mutators rest args')"

text \<open>
  Modelled from the spec: the outer loop of \<^verbatim>\<open>builderutil.Build\<close>, over the supplied
  objects (spec 4.2, step 2: outer order preserved, then inner order preserved; all
  mutators of builder 1 in order, then all of builder 2).
\<close>

fun apply_listers :: "'o Lister list \<Rightarrow> 'o \<Rightarrow> error option \<times> 'o" where
  "apply_listers [] args = (None, args)"
| "apply_listers (l # rest) args =
     (case apply_mutators l args of
        (Some err, args') \<Rightarrow> (Some err, args')
      | (None, args') \<Rightarrow> apply_listers rest args')"

text \<open>
  Modelled from the spec: \<^verbatim>\<open>builderutil.Build\<close> itself (spec 4.2, steps 1 to 4, and
  section 6: \<^verbatim>\<open>BuildOptions(...builderLike) -> (Options, error)\<close>). It starts from a
  zero-valued Options instance, which the generic Go function obtains from the type
  parameter and which is the argument \<open>zero\<close> here; on an error the partially mutated
  value is not returned; otherwise the resulting value is returned, through a pointer, as
  the callers dereference it.
\<close>

definition Build :: "'o \<Rightarrow> 'o Lister list \<Rightarrow> 'o option \<times> error option" where
  "Build zero opts =
     (case apply_listers opts zero of
        (Some err, args) \<Rightarrow> (None, Some err)
      | (None, args) \<Rightarrow> (Some args, None))"

section \<open>Redis: options, builder, configuration\<close>

text \<open>Go's \<^verbatim>\<open>int\<close> is taken at 64 bits; \<open>DB\<close> is only assigned and compared with 0.\<close>

record RedisConfigOptions =
  Addr :: string
  Password :: string
  DB :: "64 word"

record RedisConfigOptionsBuilder =
  Opts :: "RedisConfigOptions mutator list"

record RedisConfig =
  Addr :: string
  Password :: string
  DB :: "64 word"

definition RedisConfigOptions_zero :: RedisConfigOptions where
  "RedisConfigOptions_zero =
     \<lparr>RedisConfigOptions.Addr = [], RedisConfigOptions.Password = [],
      RedisConfigOptions.DB = 0\<rparr>"

definition SetAddr :: "RedisConfigOptionsBuilder \<Rightarrow> string \<Rightarrow> RedisConfigOptionsBuilder" where
  "SetAddr b addr =
     b\<lparr>RedisConfigOptionsBuilder.Opts := RedisConfigOptionsBuilder.Opts b @
        [\<lambda>args. (None, args\<lparr>RedisConfigOptions.Addr := addr\<rparr>)]\<rparr>"

definition SetPassword :: "RedisConfigOptionsBuilder \<Rightarrow> string \<Rightarrow> RedisConfigOptionsBuilder" where
  "SetPassword b password =
     b\<lparr>RedisConfigOptionsBuilder.Opts := RedisConfigOptionsBuilder.Opts b @
        [\<lambda>args. (None, args\<lparr>RedisConfigOptions.Password := password\<rparr>)]\<rparr>"

definition SetDB :: "RedisConfigOptionsBuilder \<Rightarrow> 64 word \<Rightarrow> RedisConfigOptionsBuilder" where
  "SetDB b db =
     b\<lparr>RedisConfigOptionsBuilder.Opts := RedisConfigOptionsBuilder.Opts b @
        [\<lambda>args. (None, args\<lparr>RedisConfigOptions.DB := db\<rparr>)]\<rparr>"

definition RedisConfigOptionsBuilder_List ::
  "RedisConfigOptionsBuilder \<Rightarrow> RedisConfigOptions Lister" where
  "RedisConfigOptionsBuilder_List b = RedisConfigOptionsBuilder.Opts b"

definition NewRedisConfigOptionsBuilder :: RedisConfigOptionsBuilder where
  "NewRedisConfigOptionsBuilder = \<lparr>RedisConfigOptionsBuilder.Opts = []\<rparr>"

definition NewRedisConfig ::
  "RedisConfigOptions Lister list \<Rightarrow> (RedisConfig option \<times> error option) outcome" where
  "NewRedisConfig opts =
     (case Build RedisConfigOptions_zero opts of
        (options, Some err) \<Rightarrow> Return (None, Some err)
      | (None, None) \<Rightarrow> Return (None, Some (errors_New ''redis config options is nil''))
      | (Some options, None) \<Rightarrow>
          if RedisConfigOptions.Addr options = []
          then Return (None, Some (errors_New ''redis address is required''))
          else if sint (RedisConfigOptions.DB options) < 0
          then Return (None, Some (errors_New ''redis database must be greater than 0''))
          else Return
            (Some \<lparr>RedisConfig.Addr = RedisConfigOptions.Addr options,
                   RedisConfig.Password = RedisConfigOptions.Password options,
                   RedisConfig.DB = RedisConfigOptions.DB options\<rparr>,
             None))"

section \<open>Minio: options, builder, configuration\<close>

record MinioOption =
  Endpoint :: string
  AccessKey :: string
  SecretKey :: string
  UseSSL :: bool
  BucketName :: string
  Region :: string

record MinioOptionBuilder =
  Opts :: "MinioOption mutator list"

record MinioConfig =
  Endpoint :: string
  AccessKey :: string
  SecretKey :: string
  UseSSL :: bool
  BucketName :: string
  Region :: string

definition MinioOption_zero :: MinioOption where
  "MinioOption_zero =
     \<lparr>MinioOption.Endpoint = [], MinioOption.AccessKey = [], MinioOption.SecretKey = [],
      MinioOption.UseSSL = False, MinioOption.BucketName = [], MinioOption.Region = []\<rparr>"

definition MinioOptionBuilder_List :: "MinioOptionBuilder \<Rightarrow> MinioOption Lister" where
  "MinioOptionBuilder_List builder = MinioOptionBuilder.Opts builder"

definition NewMinioOption :: MinioOptionBuilder where
  "NewMinioOption = \<lparr>MinioOptionBuilder.Opts = []\<rparr>"

definition SetEndpoint :: "MinioOptionBuilder \<Rightarrow> string \<Rightarrow> MinioOptionBuilder" where
  "SetEndpoint builder endpoint =
     builder\<lparr>MinioOptionBuilder.Opts := MinioOptionBuilder.Opts builder @
        [\<lambda>args. (None, args\<lparr>MinioOption.Endpoint := endpoint\<rparr>)]\<rparr>"

definition SetAccessKey :: "MinioOptionBuilder \<Rightarrow> string \<Rightarrow> MinioOptionBuilder" where
  "SetAccessKey builder accessKey =
     builder\<lparr>MinioOptionBuilder.Opts := MinioOptionBuilder.Opts builder @
        [\<lambda>args. (None, args\<lparr>MinioOption.AccessKey := accessKey\<rparr>)]\<rparr>"

definition SetSecretKey :: "MinioOptionBuilder \<Rightarrow> string \<Rightarrow> MinioOptionBuilder" where
  "SetSecretKey builder secretKey =
     builder\<lparr>MinioOptionBuilder.Opts := MinioOptionBuilder.Opts builder @
        [\<lambda>args. (None, args\<lparr>MinioOption.SecretKey := secretKey\<rparr>)]\<rparr>"

definition SetUseSSL :: "MinioOptionBuilder \<Rightarrow> bool \<Rightarrow> MinioOptionBuilder" where
  "SetUseSSL builder useSSL =
     builder\<lparr>MinioOptionBuilder.Opts := MinioOptionBuilder.Opts builder @
        [\<lambda>args. (None, args\<lparr>MinioOption.UseSSL := useSSL\<rparr>)]\<rparr>"

definition SetBucketName :: "MinioOptionBuilder \<Rightarrow> string \<Rightarrow> MinioOptionBuilder" where
  "SetBucketName builder bucketName =
     builder\<lparr>MinioOptionBuilder.Opts := MinioOptionBuilder.Opts builder @
        [\<lambda>args. (None, args\<lparr>MinioOption.BucketName := bucketName\<rparr>)]\<rparr>"

definition SetRegion :: "MinioOptionBuilder \<Rightarrow> string \<Rightarrow> MinioOptionBuilder" where
  "SetRegion builder region =
     builder\<lparr>MinioOptionBuilder.Opts := MinioOptionBuilder.Opts builder @
        [\<lambda>args. (None, args\<lparr>MinioOption.Region := region\<rparr>)]\<rparr>"

text \<open>
  \<^verbatim>\<open>NewMinioConfig\<close> reads \<^verbatim>\<open>options.Endpoint\<close> with no nil check: on a nil pointer
  with a nil error that read panics.
\<close>

definition NewMinioConfig ::
  "MinioOption Lister list \<Rightarrow> (MinioConfig option \<times> error option) outcome" where
  "NewMinioConfig opts =
     (case Build MinioOption_zero opts of
        (options, Some err) \<Rightarrow> Return (None, Some err)
      | (None, None) \<Rightarrow> Panic
      | (Some options, None) \<Rightarrow>
          if MinioOption.Endpoint options = []
          then Return (None, Some (errors_New ''minio endpoint is required''))
          else if MinioOption.AccessKey options = []
          then Return (None, Some (errors_New ''minio access key is required''))
          else if MinioOption.SecretKey options = []
          then Return (None, Some (errors_New ''minio secret key is required''))
          else if MinioOption.BucketName options = []
          then Return (None, Some (errors_New ''minio bucket name is required''))
          else Return
            (Some \<lparr>MinioConfig.Endpoint = MinioOption.Endpoint options,
                   MinioConfig.AccessKey = MinioOption.AccessKey options,
                   MinioConfig.SecretKey = MinioOption.SecretKey options,
                   MinioConfig.UseSSL = MinioOption.UseSSL options,
                   MinioConfig.BucketName = MinioOption.BucketName options,
                   MinioConfig.Region = MinioOption.Region options\<rparr>,
             None))"

section \<open>File bucket: options, builder, configuration\<close>

record FileBucketOption =
  BasePath :: string

record FileBucketOptionBuilder =
  Opts :: "FileBucketOption mutator list"

record FileBucketConfig =
  BasePath :: string

definition FileBucketOption_zero :: FileBucketOption where
  "FileBucketOption_zero = \<lparr>FileBucketOption.BasePath = []\<rparr>"

definition SetBasePath :: "FileBucketOptionBuilder \<Rightarrow> string \<Rightarrow> FileBucketOptionBuilder" where
  "SetBasePath builder basePath =
     builder\<lparr>FileBucketOptionBuilder.Opts := FileBucketOptionBuilder.Opts builder @
        [\<lambda>args. (None, args\<lparr>FileBucketOption.BasePath := basePath\<rparr>)]\<rparr>"

definition FileBucketOptionBuilder_List ::
  "FileBucketOptionBuilder \<Rightarrow> FileBucketOption Lister" where
  "FileBucketOptionBuilder_List builder = FileBucketOptionBuilder.Opts builder"

definition NewFileBucketOption :: FileBucketOptionBuilder where
  "NewFileBucketOption = \<lparr>FileBucketOptionBuilder.Opts = []\<rparr>"

definition NewFileBucketConfig ::
  "FileBucketOption Lister list \<Rightarrow> (FileBucketConfig option \<times> error option) outcome" where
  "NewFileBucketConfig opts =
     (case Build FileBucketOption_zero opts of
        (options, Some err) \<Rightarrow> Return (None, Some err)
      | (None, None) \<Rightarrow> Panic
      | (Some options, None) \<Rightarrow>
          if FileBucketOption.BasePath options = []
          then Return (None, Some (errors_New ''file bucket base path is required''))
          else Return (Some \<lparr>FileBucketConfig.BasePath = FileBucketOption.BasePath options\<rparr>,
                       None))"

section \<open>Vocabulary of the properties\<close>

text \<open>
  Mutator \<open>k\<close> (counted from 0 over all supplied objects, in the order in which Build
  meets them) signals the error \<open>err\<close>: every mutator before it has returned nil, and
  mutator \<open>k\<close>, invoked on the options value they left behind, returns \<open>err\<close>.
\<close>

definition signals_error_at :: "'o \<Rightarrow> 'o Lister list \<Rightarrow> nat \<Rightarrow> error \<Rightarrow> bool" where
  "signals_error_at zero opts k err =
     (k < length (concat opts) \<and>
      (case apply_mutators (take k (concat opts)) zero of
         (None, args) \<Rightarrow> fst ((concat opts ! k) args) = Some err
       | (Some e, args) \<Rightarrow> False))"

text \<open>
  A chain of setter calls \<^verbatim>\<open>NewRedisConfigOptionsBuilder().SetAddr(a).SetDB(d)...\<close> is
  the list of its calls, in call order; \<open>RedisCall\<close> performs one call on the builder and
  \<open>RedisChain\<close> the whole chain on a new builder, whose \<^verbatim>\<open>List()\<close> it hands to the
  constructor. \<open>RedisCallField\<close> names the field that the call's setter is for,
  \<open>RedisFieldIs c args\<close> says that this field of \<open>args\<close> has the value passed in the
  call \<open>c\<close>, and \<open>RedisAssign c\<close> is the assignment to it. The same for the other two
  builders.
\<close>

datatype RedisSetterCall = Call_SetAddr string | Call_SetPassword string | Call_SetDB "64 word"

fun RedisCall :: "RedisConfigOptionsBuilder \<Rightarrow> RedisSetterCall \<Rightarrow> RedisConfigOptionsBuilder" where
  "RedisCall b (Call_SetAddr addr) = SetAddr b addr"
| "RedisCall b (Call_SetPassword password) = SetPassword b password"
| "RedisCall b (Call_SetDB db) = SetDB b db"

definition RedisChain :: "RedisSetterCall list \<Rightarrow> RedisConfigOptions Lister" where
  "RedisChain calls =
     RedisConfigOptionsBuilder_List (foldl RedisCall NewRedisConfigOptionsBuilder calls)"

fun RedisCallField :: "RedisSetterCall \<Rightarrow> string" where
  "RedisCallField (Call_SetAddr addr) = ''Addr''"
| "RedisCallField (Call_SetPassword password) = ''Password''"
| "RedisCallField (Call_SetDB db) = ''DB''"

fun RedisFieldIs :: "RedisSetterCall \<Rightarrow> RedisConfigOptions \<Rightarrow> bool" where
  "RedisFieldIs (Call_SetAddr addr) args = (RedisConfigOptions.Addr args = addr)"
| "RedisFieldIs (Call_SetPassword password) args =
     (RedisConfigOptions.Password args = password)"
| "RedisFieldIs (Call_SetDB db) args = (RedisConfigOptions.DB args = db)"

fun RedisAssign :: "RedisSetterCall \<Rightarrow> RedisConfigOptions \<Rightarrow> RedisConfigOptions" where
  "RedisAssign (Call_SetAddr addr) args = args\<lparr>RedisConfigOptions.Addr := addr\<rparr>"
| "RedisAssign (Call_SetPassword password) args =
     args\<lparr>RedisConfigOptions.Password := password\<rparr>"
| "RedisAssign (Call_SetDB db) args = args\<lparr>RedisConfigOptions.DB := db\<rparr>"

datatype MinioSetterCall =
    Call_SetEndpoint string
  | Call_SetAccessKey string
  | Call_SetSecretKey string
  | Call_SetUseSSL bool
  | Call_SetBucketName string
  | Call_SetRegion string

fun MinioCall :: "MinioOptionBuilder \<Rightarrow> MinioSetterCall \<Rightarrow> MinioOptionBuilder" where
  "MinioCall builder (Call_SetEndpoint endpoint) = SetEndpoint builder endpoint"
| "MinioCall builder (Call_SetAccessKey accessKey) = SetAccessKey builder accessKey"
| "MinioCall builder (Call_SetSecretKey secretKey) = SetSecretKey builder secretKey"
| "MinioCall builder (Call_SetUseSSL useSSL) = SetUseSSL builder useSSL"
| "MinioCall builder (Call_SetBucketName bucketName) = SetBucketName builder bucketName"
| "MinioCall builder (Call_SetRegion region) = SetRegion builder region"

definition MinioChain :: "MinioSetterCall list \<Rightarrow> MinioOption Lister" where
  "MinioChain calls = MinioOptionBuilder_List (foldl MinioCall NewMinioOption calls)"

fun MinioCallField :: "MinioSetterCall \<Rightarrow> string" where
  "MinioCallField (Call_SetEndpoint endpoint) = ''Endpoint''"
| "MinioCallField (Call_SetAccessKey accessKey) = ''AccessKey''"
| "MinioCallField (Call_SetSecretKey secretKey) = ''SecretKey''"
| "MinioCallField (Call_SetUseSSL useSSL) = ''UseSSL''"
| "MinioCallField (Call_SetBucketName bucketName) = ''BucketName''"
| "MinioCallField (Call_SetRegion region) = ''Region''"

fun MinioFieldIs :: "MinioSetterCall \<Rightarrow> MinioOption \<Rightarrow> bool" where
  "MinioFieldIs (Call_SetEndpoint endpoint) args = (MinioOption.Endpoint args = endpoint)"
| "MinioFieldIs (Call_SetAccessKey accessKey) args = (MinioOption.AccessKey args = accessKey)"
| "MinioFieldIs (Call_SetSecretKey secretKey) args = (MinioOption.SecretKey args = secretKey)"
| "MinioFieldIs (Call_SetUseSSL useSSL) args = (MinioOption.UseSSL args = useSSL)"
| "MinioFieldIs (Call_SetBucketName bucketName) args =
     (MinioOption.BucketName args = bucketName)"
| "MinioFieldIs (Call_SetRegion region) args = (MinioOption.Region args = region)"

fun MinioAssign :: "MinioSetterCall \<Rightarrow> MinioOption \<Rightarrow> MinioOption" where
  "MinioAssign (Call_SetEndpoint endpoint) args = args\<lparr>MinioOption.Endpoint := endpoint\<rparr>"
| "MinioAssign (Call_SetAccessKey accessKey) args = args\<lparr>MinioOption.AccessKey := accessKey\<rparr>"
| "MinioAssign (Call_SetSecretKey secretKey) args = args\<lparr>MinioOption.SecretKey := secretKey\<rparr>"
| "MinioAssign (Call_SetUseSSL useSSL) args = args\<lparr>MinioOption.UseSSL := useSSL\<rparr>"
| "MinioAssign (Call_SetBucketName bucketName) args =
     args\<lparr>MinioOption.BucketName := bucketName\<rparr>"
| "MinioAssign (Call_SetRegion region) args = args\<lparr>MinioOption.Region := region\<rparr>"

datatype FileBucketSetterCall = Call_SetBasePath string

fun FileBucketCall ::
  "FileBucketOptionBuilder \<Rightarrow> FileBucketSetterCall \<Rightarrow> FileBucketOptionBuilder" where
  "FileBucketCall builder (Call_SetBasePath basePath) = SetBasePath builder basePath"

definition FileBucketChain :: "FileBucketSetterCall list \<Rightarrow> FileBucketOption Lister" where
  "FileBucketChain calls =
     FileBucketOptionBuilder_List (foldl FileBucketCall NewFileBucketOption calls)"

fun FileBucketCallField :: "FileBucketSetterCall \<Rightarrow> string" where
  "FileBucketCallField (Call_SetBasePath basePath) = ''BasePath''"

fun FileBucketFieldIs :: "FileBucketSetterCall \<Rightarrow> FileBucketOption \<Rightarrow> bool" where
  "FileBucketFieldIs (Call_SetBasePath basePath) args =
     (FileBucketOption.BasePath args = basePath)"

fun FileBucketAssign :: "FileBucketSetterCall \<Rightarrow> FileBucketOption \<Rightarrow> FileBucketOption" where
  "FileBucketAssign (Call_SetBasePath basePath) args =
     args\<lparr>FileBucketOption.BasePath := basePath\<rparr>"

text \<open>
  The validation checklists, in the order the properties give them: each rule is the
  test for its violation and the message of its error. The Redis rules are on the pointer
  that Build returned, the first of them being the nil check. Rule \<open>i\<close> is the first
  violated one when it is violated and no rule before it is.
\<close>

type_synonym 'o checklist = "(('o \<Rightarrow> bool) \<times> string) list"

definition RedisChecklist :: "RedisConfigOptions option checklist" where
  "RedisChecklist =
     [(\<lambda>options. options = None, ''redis config options is nil''),
      (\<lambda>options. case options of None \<Rightarrow> False
                  | Some args \<Rightarrow> RedisConfigOptions.Addr args = [],
       ''redis address is required''),
      (\<lambda>options. case options of None \<Rightarrow> False
                  | Some args \<Rightarrow> sint (RedisConfigOptions.DB args) < 0,
       ''redis database must be greater than 0'')]"

definition MinioChecklist :: "MinioOption checklist" where
  "MinioChecklist =
     [(\<lambda>options. MinioOption.Endpoint options = [], ''minio endpoint is required''),
      (\<lambda>options. MinioOption.AccessKey options = [], ''minio access key is required''),
      (\<lambda>options. MinioOption.SecretKey options = [], ''minio secret key is required''),
      (\<lambda>options. MinioOption.BucketName options = [], ''minio bucket name is required'')]"

definition FileBucketChecklist :: "FileBucketOption checklist" where
  "FileBucketChecklist =
     [(\<lambda>options. FileBucketOption.BasePath options = [],
       ''file bucket base path is required'')]"

definition is_first_violated :: "'o checklist \<Rightarrow> nat \<Rightarrow> 'o \<Rightarrow> bool" where
  "is_first_violated checklist i options =
     (i < length checklist \<and> fst (checklist ! i) options \<and>
      list_all (\<lambda>rule. \<not> fst rule options) (take i checklist))"

section \<open>Build: the order of application and its two results\<close>

lemma apply_mutators_append:
  "apply_mutators (xs @ ys) args =
     (case apply_mutators xs args of
        (Some err, args') \<Rightarrow> (Some err, args')
      | (None, args') \<Rightarrow> apply_mutators ys args')"
  by (induction xs arbitrary: args) (auto split: prod.splits option.splits)

lemma apply_listers_concat: "apply_listers opts args = apply_mutators (concat opts) args"
  by (induction opts arbitrary: args)
     (auto simp: apply_mutators_append split: prod.splits option.splits)

lemma Build_result:
  "(\<exists>args. Build zero opts = (Some args, None) \<and> apply_listers opts zero = (None, args)) \<or>
   (\<exists>err args. Build zero opts = (None, Some err) \<and> apply_listers opts zero = (Some err, args))"
  by (cases "apply_listers opts zero") (auto simp: Build_def split: option.splits)

lemma apply_mutators_error_at:
  assumes "k < length ms"
    and "apply_mutators (take k ms) zero = (None, args)"
    and "fst ((ms ! k) args) = Some err"
  shows "apply_mutators ms zero = (ms ! k) args"
    and "apply_mutators (take (Suc k) ms) zero = (ms ! k) args"
proof -
  obtain args' where m: "(ms ! k) args = (Some err, args')"
    using assms(3) by (cases "(ms ! k) args") auto
  have ms: "ms = take k ms @ (ms ! k) # drop (Suc k) ms"
    using assms(1) by (simp add: id_take_nth_drop)
  have "apply_mutators (take k ms @ (ms ! k) # drop (Suc k) ms) zero = (ms ! k) args"
    using assms(2) m by (simp add: apply_mutators_append)
  with ms show "apply_mutators ms zero = (ms ! k) args" by simp
  have "apply_mutators (take k ms @ [ms ! k]) zero = (ms ! k) args"
    using assms(2) m by (simp add: apply_mutators_append)
  then show "apply_mutators (take (Suc k) ms) zero = (ms ! k) args"
    using assms(1) by (simp add: take_Suc_conv_app_nth)
qed

lemma signals_error_at_Build:
  assumes "signals_error_at zero opts k err"
  shows "Build zero opts = (None, Some err)"
    and "apply_listers opts zero = apply_mutators (take (Suc k) (concat opts)) zero"
proof -
  from assms obtain args where k: "k < length (concat opts)"
    and pre: "apply_mutators (take k (concat opts)) zero = (None, args)"
    and m: "fst ((concat opts ! k) args) = Some err"
    by (auto simp: signals_error_at_def split: prod.splits option.splits)
  note run = apply_mutators_error_at [OF k pre m]
  from m obtain args' where "(concat opts ! k) args = (Some err, args')"
    by (cases "(concat opts ! k) args") auto
  with run(1) show "Build zero opts = (None, Some err)"
    by (simp add: Build_def apply_listers_concat)
  from run show "apply_listers opts zero = apply_mutators (take (Suc k) (concat opts)) zero"
    by (simp add: apply_listers_concat)
qed

lemma signals_error_at_same_prefix:
  assumes "signals_error_at zero opts k err"
    and "take (Suc k) (concat opts') = take (Suc k) (concat opts)"
  shows "signals_error_at zero opts' k err"
proof -
  from assms(1) have k: "k < length (concat opts)"
    by (simp add: signals_error_at_def)
  have "length (take (Suc k) (concat opts')) = length (take (Suc k) (concat opts))"
    using assms(2) by simp
  with k have k': "k < length (concat opts')" by simp
  have "take k (take (Suc k) (concat opts')) = take k (take (Suc k) (concat opts))"
    using assms(2) by simp
  then have pre: "take k (concat opts') = take k (concat opts)" by simp
  have "take (Suc k) (concat opts') ! k = take (Suc k) (concat opts) ! k"
    using assms(2) by simp
  then have nth: "concat opts' ! k = concat opts ! k" by simp
  from assms(1) k' pre nth show ?thesis
    by (auto simp: signals_error_at_def split: prod.splits option.splits)
qed

lemma signals_error_at_Build_same_prefix:
  assumes "signals_error_at zero opts k err"
    and "take (Suc k) (concat opts') = take (Suc k) (concat opts)"
  shows "Build zero opts' = (None, Some err)"
  using signals_error_at_same_prefix [OF assms] by (rule signals_error_at_Build(1))

section \<open>The constructors on a failed Build\<close>

lemma NewRedisConfig_Build_error:
  "snd (Build RedisConfigOptions_zero opts) = Some err \<Longrightarrow>
   NewRedisConfig opts = Return (None, Some err)"
  by (auto simp: NewRedisConfig_def split: prod.splits option.splits)

lemma NewMinioConfig_Build_error:
  "snd (Build MinioOption_zero opts) = Some err \<Longrightarrow>
   NewMinioConfig opts = Return (None, Some err)"
  by (auto simp: NewMinioConfig_def split: prod.splits option.splits)

lemma NewFileBucketConfig_Build_error:
  "snd (Build FileBucketOption_zero opts) = Some err \<Longrightarrow>
   NewFileBucketConfig opts = Return (None, Some err)"
  by (auto simp: NewFileBucketConfig_def split: prod.splits option.splits)

text \<open>
  Claim C1. When mutator \<open>k\<close> of the supplied sequence signals an error, Build returns
  exactly that error and no Options value, and what it has run is the first \<open>k + 1\<close>
  mutators only: the mutators after \<open>k\<close> do not contribute, and Build returns the same
  on every input with the same first \<open>k + 1\<close> mutators. Each of \<open>NewRedisConfig\<close>,
  \<open>NewMinioConfig\<close> and \<open>NewFileBucketConfig\<close> then returns that same error and a
  nil Config.
\<close>

theorem Build_error_stops_and_propagates:
  "(signals_error_at zero opts k err \<longrightarrow>
      Build zero opts = (None, Some err) \<and>
      apply_listers opts zero = apply_mutators (take (Suc k) (concat opts)) zero \<and>
      (\<forall>opts'. take (Suc k) (concat opts') = take (Suc k) (concat opts) \<longrightarrow>
         Build zero opts' = (None, Some err))) \<and>
   (signals_error_at RedisConfigOptions_zero ropts kr er \<longrightarrow>
      NewRedisConfig ropts = Return (None, Some er)) \<and>
   (signals_error_at MinioOption_zero mopts km em \<longrightarrow>
      NewMinioConfig mopts = Return (None, Some em)) \<and>
   (signals_error_at FileBucketOption_zero fopts kf ef \<longrightarrow>
      NewFileBucketConfig fopts = Return (None, Some ef))"
  by (auto simp: signals_error_at_Build NewRedisConfig_Build_error NewMinioConfig_Build_error
      NewFileBucketConfig_Build_error intro: signals_error_at_Build_same_prefix)

theorem Build_error_stops_and_propagates_witness:
  "Build (0::nat)
     [[\<lambda>n. (None, n + 1)], [\<lambda>n. (Some (errors_New ''boom''), n + 10), \<lambda>n. (None, n + 100)]] =
     (None, Some (errors_New ''boom'')) \<and>
   apply_listers
     [[\<lambda>n. (None, n + 1)], [\<lambda>n. (Some (errors_New ''boom''), n + 10), \<lambda>n. (None, n + 100)]]
     (0::nat) = (Some (errors_New ''boom''), 11) \<and>
   NewRedisConfig
     [RedisConfigOptionsBuilder_List (SetAddr NewRedisConfigOptionsBuilder ''a''),
      [\<lambda>args. (Some (errors_New ''boom''), args\<lparr>RedisConfigOptions.DB := 7\<rparr>)]] =
     Return (None, Some (errors_New ''boom'')) \<and>
   NewMinioConfig [[\<lambda>args. (Some (errors_New ''boom''), args)]] =
     Return (None, Some (errors_New ''boom'')) \<and>
   NewFileBucketConfig [[\<lambda>args. (Some (errors_New ''boom''), args)]] =
     Return (None, Some (errors_New ''boom''))"
  using Build_error_stops_and_propagates
    [of "0::nat"
        "[[\<lambda>n. (None, n + 1)],
          [\<lambda>n. (Some (errors_New ''boom''), n + 10), \<lambda>n. (None, n + 100)]]"
        1 "errors_New ''boom''"
        "[RedisConfigOptionsBuilder_List (SetAddr NewRedisConfigOptionsBuilder ''a''),
          [\<lambda>args. (Some (errors_New ''boom''), args\<lparr>RedisConfigOptions.DB := 7\<rparr>)]]"
        1 "errors_New ''boom''"
        "[[\<lambda>args. (Some (errors_New ''boom''), args)]]" 0 "errors_New ''boom''"
        "[[\<lambda>args. (Some (errors_New ''boom''), args)]]" 0 "errors_New ''boom''"]
  by (simp add: signals_error_at_def SetAddr_def NewRedisConfigOptionsBuilder_def
      RedisConfigOptionsBuilder_List_def)

section \<open>Chains of setter calls\<close>

lemma apply_mutators_assignments:
  "apply_mutators (map (\<lambda>c args. (None, f c args)) calls) args =
     (None, foldl (\<lambda>a c. f c a) args calls)"
  by (induction calls arbitrary: args) simp_all

lemma Build_assignments:
  assumes "concat opts = map (\<lambda>c args. (None, f c args)) calls"
  shows "Build zero opts = (Some (foldl (\<lambda>a c. f c a) zero calls), None)"
  using assms by (simp add: Build_def apply_listers_concat apply_mutators_assignments)

lemma last_assignment_holds:
  assumes own: "\<And>a. holds c (f c a)"
    and other: "\<And>c' a. field c' \<noteq> field c \<Longrightarrow> holds c a \<Longrightarrow> holds c (f c' a)"
    and after: "list_all (\<lambda>c'. field c' \<noteq> field c) after"
  shows "holds c (foldl (\<lambda>a c. f c a) args (before @ c # after))"
proof -
  have "holds c a \<Longrightarrow> list_all (\<lambda>c'. field c' \<noteq> field c) after \<Longrightarrow>
        holds c (foldl (\<lambda>a c. f c a) a after)" for a
    by (induction after arbitrary: a) (simp_all add: other)
  with own after show ?thesis by simp
qed

subsection \<open>Redis\<close>

lemma RedisCall_Opts:
  "RedisConfigOptionsBuilder.Opts (RedisCall b c) =
     RedisConfigOptionsBuilder.Opts b @ [\<lambda>args. (None, RedisAssign c args)]"
  by (cases c) (simp_all add: SetAddr_def SetPassword_def SetDB_def)

lemma Redis_foldl_Opts:
  "RedisConfigOptionsBuilder.Opts (foldl RedisCall b calls) =
     RedisConfigOptionsBuilder.Opts b @ map (\<lambda>c args. (None, RedisAssign c args)) calls"
  by (induction calls arbitrary: b) (simp_all add: RedisCall_Opts)

lemma RedisChain_mutators:
  "RedisChain calls = map (\<lambda>c args. (None, RedisAssign c args)) calls"
  by (simp add: RedisChain_def RedisConfigOptionsBuilder_List_def Redis_foldl_Opts
      NewRedisConfigOptionsBuilder_def)

lemma Redis_chains_concat:
  "concat (map RedisChain callss) = map (\<lambda>c args. (None, RedisAssign c args)) (concat callss)"
  by (induction callss) (simp_all add: RedisChain_mutators)

lemma Redis_chains_Build:
  "Build RedisConfigOptions_zero (map RedisChain callss) =
     (Some (foldl (\<lambda>a c. RedisAssign c a) RedisConfigOptions_zero (concat callss)), None)"
  by (rule Build_assignments [OF Redis_chains_concat])

lemma RedisAssign_own: "RedisFieldIs c (RedisAssign c args)"
  by (cases c) simp_all

lemma RedisAssign_other:
  "RedisCallField c' \<noteq> RedisCallField c \<Longrightarrow>
   RedisFieldIs c (RedisAssign c' args) = RedisFieldIs c args"
  by (cases c; cases c') simp_all

lemma Redis_last_write_wins:
  assumes "concat callss = before @ c # after"
    and "list_all (\<lambda>c'. RedisCallField c' \<noteq> RedisCallField c) after"
  shows "\<exists>args. Build RedisConfigOptions_zero (map RedisChain callss) = (Some args, None) \<and>
           RedisFieldIs c args"
proof -
  have "RedisFieldIs c
          (foldl (\<lambda>a c. RedisAssign c a) RedisConfigOptions_zero (before @ c # after))"
    by (rule last_assignment_holds [where field = RedisCallField])
       (simp_all add: RedisAssign_own RedisAssign_other assms(2))
  then show ?thesis
    using assms(1) by (simp add: Redis_chains_Build)
qed

lemma Redis_setter_one_mutator:
  "\<exists>m. RedisConfigOptionsBuilder.Opts (RedisCall b c) = RedisConfigOptionsBuilder.Opts b @ [m] \<and>
       (\<forall>args. fst (m args) = None \<and> RedisFieldIs c (snd (m args)) \<and>
          (\<forall>c'. RedisCallField c' \<noteq> RedisCallField c \<longrightarrow>
                RedisFieldIs c' (snd (m args)) = RedisFieldIs c' args))"
  by (simp add: RedisCall_Opts RedisAssign_own RedisAssign_other)

subsection \<open>Minio\<close>

lemma MinioCall_Opts:
  "MinioOptionBuilder.Opts (MinioCall b c) =
     MinioOptionBuilder.Opts b @ [\<lambda>args. (None, MinioAssign c args)]"
  by (cases c)
     (simp_all add: SetEndpoint_def SetAccessKey_def SetSecretKey_def SetUseSSL_def
        SetBucketName_def SetRegion_def)

lemma Minio_foldl_Opts:
  "MinioOptionBuilder.Opts (foldl MinioCall b calls) =
     MinioOptionBuilder.Opts b @ map (\<lambda>c args. (None, MinioAssign c args)) calls"
  by (induction calls arbitrary: b) (simp_all add: MinioCall_Opts)

lemma MinioChain_mutators:
  "MinioChain calls = map (\<lambda>c args. (None, MinioAssign c args)) calls"
  by (simp add: MinioChain_def MinioOptionBuilder_List_def Minio_foldl_Opts NewMinioOption_def)

lemma Minio_chains_concat:
  "concat (map MinioChain callss) = map (\<lambda>c args. (None, MinioAssign c args)) (concat callss)"
  by (induction callss) (simp_all add: MinioChain_mutators)

lemma Minio_chains_Build:
  "Build MinioOption_zero (map MinioChain callss) =
     (Some (foldl (\<lambda>a c. MinioAssign c a) MinioOption_zero (concat callss)), None)"
  by (rule Build_assignments [OF Minio_chains_concat])

lemma MinioAssign_own: "MinioFieldIs c (MinioAssign c args)"
  by (cases c) simp_all

lemma MinioAssign_other:
  "MinioCallField c' \<noteq> MinioCallField c \<Longrightarrow>
   MinioFieldIs c (MinioAssign c' args) = MinioFieldIs c args"
  by (cases c; cases c') simp_all

lemma Minio_last_write_wins:
  assumes "concat callss = before @ c # after"
    and "list_all (\<lambda>c'. MinioCallField c' \<noteq> MinioCallField c) after"
  shows "\<exists>args. Build MinioOption_zero (map MinioChain callss) = (Some args, None) \<and>
           MinioFieldIs c args"
proof -
  have "MinioFieldIs c (foldl (\<lambda>a c. MinioAssign c a) MinioOption_zero (before @ c # after))"
    by (rule last_assignment_holds [where field = MinioCallField])
       (simp_all add: MinioAssign_own MinioAssign_other assms(2))
  then show ?thesis
    using assms(1) by (simp add: Minio_chains_Build)
qed

lemma Minio_setter_one_mutator:
  "\<exists>m. MinioOptionBuilder.Opts (MinioCall b c) = MinioOptionBuilder.Opts b @ [m] \<and>
       (\<forall>args. fst (m args) = None \<and> MinioFieldIs c (snd (m args)) \<and>
          (\<forall>c'. MinioCallField c' \<noteq> MinioCallField c \<longrightarrow>
                MinioFieldIs c' (snd (m args)) = MinioFieldIs c' args))"
  by (simp add: MinioCall_Opts MinioAssign_own MinioAssign_other)

subsection \<open>File bucket\<close>

lemma FileBucketCall_Opts:
  "FileBucketOptionBuilder.Opts (FileBucketCall b c) =
     FileBucketOptionBuilder.Opts b @ [\<lambda>args. (None, FileBucketAssign c args)]"
  by (cases c) (simp_all add: SetBasePath_def)

lemma FileBucket_foldl_Opts:
  "FileBucketOptionBuilder.Opts (foldl FileBucketCall b calls) =
     FileBucketOptionBuilder.Opts b @ map (\<lambda>c args. (None, FileBucketAssign c args)) calls"
  by (induction calls arbitrary: b) (simp_all add: FileBucketCall_Opts)

lemma FileBucketChain_mutators:
  "FileBucketChain calls = map (\<lambda>c args. (None, FileBucketAssign c args)) calls"
  by (simp add: FileBucketChain_def FileBucketOptionBuilder_List_def FileBucket_foldl_Opts
      NewFileBucketOption_def)

lemma FileBucket_chains_concat:
  "concat (map FileBucketChain callss) =
     map (\<lambda>c args. (None, FileBucketAssign c args)) (concat callss)"
  by (induction callss) (simp_all add: FileBucketChain_mutators)

lemma FileBucket_chains_Build:
  "Build FileBucketOption_zero (map FileBucketChain callss) =
     (Some (foldl (\<lambda>a c. FileBucketAssign c a) FileBucketOption_zero (concat callss)), None)"
  by (rule Build_assignments [OF FileBucket_chains_concat])

lemma FileBucketAssign_own: "FileBucketFieldIs c (FileBucketAssign c args)"
  by (cases c) simp_all

lemma FileBucketAssign_other:
  "FileBucketCallField c' \<noteq> FileBucketCallField c \<Longrightarrow>
   FileBucketFieldIs c (FileBucketAssign c' args) = FileBucketFieldIs c args"
  by (cases c; cases c') simp_all

lemma FileBucket_last_write_wins:
  assumes "concat callss = before @ c # after"
    and "list_all (\<lambda>c'. FileBucketCallField c' \<noteq> FileBucketCallField c) after"
  shows "\<exists>args. Build FileBucketOption_zero (map FileBucketChain callss) = (Some args, None) \<and>
           FileBucketFieldIs c args"
proof -
  have "FileBucketFieldIs c
          (foldl (\<lambda>a c. FileBucketAssign c a) FileBucketOption_zero (before @ c # after))"
    by (rule last_assignment_holds [where field = FileBucketCallField])
       (simp_all add: FileBucketAssign_own FileBucketAssign_other assms(2))
  then show ?thesis
    using assms(1) by (simp add: FileBucket_chains_Build)
qed

lemma FileBucket_setter_one_mutator:
  "\<exists>m. FileBucketOptionBuilder.Opts (FileBucketCall b c) =
         FileBucketOptionBuilder.Opts b @ [m] \<and>
       (\<forall>args. fst (m args) = None \<and> FileBucketFieldIs c (snd (m args)) \<and>
          (\<forall>c'. FileBucketCallField c' \<noteq> FileBucketCallField c \<longrightarrow>
                FileBucketFieldIs c' (snd (m args)) = FileBucketFieldIs c' args))"
  by (simp add: FileBucketCall_Opts FileBucketAssign_own FileBucketAssign_other)

text \<open>
  Claim C2. Take any setter calls, in chains on new builders handed to Build in order, and
  any one call \<open>c\<close> among them after which no call to the same setter follows (the last
  call that touches its field). Then Build succeeds and the field has the value passed in
  \<open>c\<close>, whatever the earlier calls passed. Each setter call appends exactly one mutator
  to the builder's \<open>Opts\<close>; that mutator returns nil, gives its own field the value
  passed, and leaves every other field as it was. This holds for the three setters of
  \<open>RedisConfigOptionsBuilder\<close>, the six of \<open>MinioOptionBuilder\<close> and the one of
  \<open>FileBucketOptionBuilder\<close>.
\<close>

theorem setters_last_write_wins:
  "(concat rcallss = rbefore @ rc # rafter \<and>
    list_all (\<lambda>c'. RedisCallField c' \<noteq> RedisCallField rc) rafter \<longrightarrow>
      (\<exists>args. Build RedisConfigOptions_zero (map RedisChain rcallss) = (Some args, None) \<and>
         RedisFieldIs rc args)) \<and>
   (\<exists>m. RedisConfigOptionsBuilder.Opts (RedisCall rb rc) =
          RedisConfigOptionsBuilder.Opts rb @ [m] \<and>
       (\<forall>args. fst (m args) = None \<and> RedisFieldIs rc (snd (m args)) \<and>
          (\<forall>c'. RedisCallField c' \<noteq> RedisCallField rc \<longrightarrow>
                RedisFieldIs c' (snd (m args)) = RedisFieldIs c' args))) \<and>
   (concat mcallss = mbefore @ mc # mafter \<and>
    list_all (\<lambda>c'. MinioCallField c' \<noteq> MinioCallField mc) mafter \<longrightarrow>
      (\<exists>args. Build MinioOption_zero (map MinioChain mcallss) = (Some args, None) \<and>
         MinioFieldIs mc args)) \<and>
   (\<exists>m. MinioOptionBuilder.Opts (MinioCall mb mc) = MinioOptionBuilder.Opts mb @ [m] \<and>
       (\<forall>args. fst (m args) = None \<and> MinioFieldIs mc (snd (m args)) \<and>
          (\<forall>c'. MinioCallField c' \<noteq> MinioCallField mc \<longrightarrow>
                MinioFieldIs c' (snd (m args)) = MinioFieldIs c' args))) \<and>
   (concat fcallss = fbefore @ fc # fafter \<and>
    list_all (\<lambda>c'. FileBucketCallField c' \<noteq> FileBucketCallField fc) fafter \<longrightarrow>
      (\<exists>args. Build FileBucketOption_zero (map FileBucketChain fcallss) = (Some args, None) \<and>
         FileBucketFieldIs fc args)) \<and>
   (\<exists>m. FileBucketOptionBuilder.Opts (FileBucketCall fb fc) =
          FileBucketOptionBuilder.Opts fb @ [m] \<and>
       (\<forall>args. fst (m args) = None \<and> FileBucketFieldIs fc (snd (m args)) \<and>
          (\<forall>c'. FileBucketCallField c' \<noteq> FileBucketCallField fc \<longrightarrow>
                FileBucketFieldIs c' (snd (m args)) = FileBucketFieldIs c' args)))"
proof (intro conjI impI)
  assume "concat rcallss = rbefore @ rc # rafter \<and>
    list_all (\<lambda>c'. RedisCallField c' \<noteq> RedisCallField rc) rafter"
  then show "\<exists>args. Build RedisConfigOptions_zero (map RedisChain rcallss) = (Some args, None) \<and>
         RedisFieldIs rc args"
    using Redis_last_write_wins by blast
next
  assume "concat mcallss = mbefore @ mc # mafter \<and>
    list_all (\<lambda>c'. MinioCallField c' \<noteq> MinioCallField mc) mafter"
  then show "\<exists>args. Build MinioOption_zero (map MinioChain mcallss) = (Some args, None) \<and>
         MinioFieldIs mc args"
    using Minio_last_write_wins by blast
next
  assume "concat fcallss = fbefore @ fc # fafter \<and>
    list_all (\<lambda>c'. FileBucketCallField c' \<noteq> FileBucketCallField fc) fafter"
  then show "\<exists>args. Build FileBucketOption_zero (map FileBucketChain fcallss) = (Some args, None) \<and>
         FileBucketFieldIs fc args"
    using FileBucket_last_write_wins by blast
qed (rule Redis_setter_one_mutator Minio_setter_one_mutator FileBucket_setter_one_mutator)+

theorem setters_last_write_wins_witness:
  "(\<exists>args. Build RedisConfigOptions_zero
       (map RedisChain
          [[Call_SetAddr ''first:1'', Call_SetDB 3], [Call_SetAddr ''last:2'', Call_SetPassword ''p'']]) =
       (Some args, None) \<and> RedisConfigOptions.Addr args = ''last:2'') \<and>
   (\<exists>args. Build MinioOption_zero
       (map MinioChain
          [[Call_SetEndpoint ''e1'', Call_SetEndpoint ''e2'', Call_SetRegion ''r'']]) =
       (Some args, None) \<and> MinioOption.Endpoint args = ''e2'') \<and>
   (\<exists>args. Build FileBucketOption_zero
       (map FileBucketChain [[Call_SetBasePath ''/a''], [Call_SetBasePath ''/b'']]) =
       (Some args, None) \<and> FileBucketOption.BasePath args = ''/b'')"
  using setters_last_write_wins
    [of "[[Call_SetAddr ''first:1'', Call_SetDB 3], [Call_SetAddr ''last:2'', Call_SetPassword ''p'']]"
        "[Call_SetAddr ''first:1'', Call_SetDB 3]" "Call_SetAddr ''last:2''"
        "[Call_SetPassword ''p'']"
        NewRedisConfigOptionsBuilder
        "[[Call_SetEndpoint ''e1'', Call_SetEndpoint ''e2'', Call_SetRegion ''r'']]"
        "[Call_SetEndpoint ''e1'']" "Call_SetEndpoint ''e2''" "[Call_SetRegion ''r'']"
        NewMinioOption
        "[[Call_SetBasePath ''/a''], [Call_SetBasePath ''/b'']]"
        "[Call_SetBasePath ''/a'']" "Call_SetBasePath ''/b''" "[]"
        NewFileBucketOption]
  by simp

section \<open>Validation\<close>

text \<open>
  Build never returns a nil pointer with a nil error, so the nil check of
  \<open>NewRedisConfig\<close> cannot fire and the other two constructors do not dereference nil.
\<close>

lemma Build_not_nil: "Build zero opts \<noteq> (None, None)"
  by (simp add: Build_def split: prod.splits option.splits)

lemma NewRedisConfig_validated:
  "Build RedisConfigOptions_zero opts = (Some options, None) \<Longrightarrow>
   NewRedisConfig opts =
     (if RedisConfigOptions.Addr options = []
      then Return (None, Some (errors_New ''redis address is required''))
      else if sint (RedisConfigOptions.DB options) < 0
      then Return (None, Some (errors_New ''redis database must be greater than 0''))
      else Return
        (Some \<lparr>RedisConfig.Addr = RedisConfigOptions.Addr options,
               RedisConfig.Password = RedisConfigOptions.Password options,
               RedisConfig.DB = RedisConfigOptions.DB options\<rparr>,
         None))"
  by (simp add: NewRedisConfig_def)

lemma NewMinioConfig_validated:
  "Build MinioOption_zero opts = (Some options, None) \<Longrightarrow>
   NewMinioConfig opts =
     (if MinioOption.Endpoint options = []
      then Return (None, Some (errors_New ''minio endpoint is required''))
      else if MinioOption.AccessKey options = []
      then Return (None, Some (errors_New ''minio access key is required''))
      else if MinioOption.SecretKey options = []
      then Return (None, Some (errors_New ''minio secret key is required''))
      else if MinioOption.BucketName options = []
      then Return (None, Some (errors_New ''minio bucket name is required''))
      else Return
        (Some \<lparr>MinioConfig.Endpoint = MinioOption.Endpoint options,
               MinioConfig.AccessKey = MinioOption.AccessKey options,
               MinioConfig.SecretKey = MinioOption.SecretKey options,
               MinioConfig.UseSSL = MinioOption.UseSSL options,
               MinioConfig.BucketName = MinioOption.BucketName options,
               MinioConfig.Region = MinioOption.Region options\<rparr>,
         None))"
  by (simp add: NewMinioConfig_def)

lemma NewFileBucketConfig_validated:
  "Build FileBucketOption_zero opts = (Some options, None) \<Longrightarrow>
   NewFileBucketConfig opts =
     (if FileBucketOption.BasePath options = []
      then Return (None, Some (errors_New ''file bucket base path is required''))
      else Return (Some \<lparr>FileBucketConfig.BasePath = FileBucketOption.BasePath options\<rparr>,
                   None))"
  by (simp add: NewFileBucketConfig_def)

lemma NewRedisConfig_Some:
  assumes "NewRedisConfig opts = Return (Some cfg, e)"
  shows "e = None \<and>
    (\<exists>options. Build RedisConfigOptions_zero opts = (Some options, None) \<and>
       RedisConfigOptions.Addr options \<noteq> [] \<and> 0 \<le> sint (RedisConfigOptions.DB options) \<and>
       cfg = \<lparr>RedisConfig.Addr = RedisConfigOptions.Addr options,
              RedisConfig.Password = RedisConfigOptions.Password options,
              RedisConfig.DB = RedisConfigOptions.DB options\<rparr>)"
  using assms
  by (auto simp: NewRedisConfig_def split: prod.splits option.splits if_splits)

lemma NewMinioConfig_Some:
  assumes "NewMinioConfig opts = Return (Some cfg, e)"
  shows "e = None \<and>
    (\<exists>options. Build MinioOption_zero opts = (Some options, None) \<and>
       MinioOption.Endpoint options \<noteq> [] \<and> MinioOption.AccessKey options \<noteq> [] \<and>
       MinioOption.SecretKey options \<noteq> [] \<and> MinioOption.BucketName options \<noteq> [] \<and>
       cfg = \<lparr>MinioConfig.Endpoint = MinioOption.Endpoint options,
              MinioConfig.AccessKey = MinioOption.AccessKey options,
              MinioConfig.SecretKey = MinioOption.SecretKey options,
              MinioConfig.UseSSL = MinioOption.UseSSL options,
              MinioConfig.BucketName = MinioOption.BucketName options,
              MinioConfig.Region = MinioOption.Region options\<rparr>)"
  using assms
  by (auto simp: NewMinioConfig_def split: prod.splits option.splits if_splits)

lemma NewFileBucketConfig_Some:
  assumes "NewFileBucketConfig opts = Return (Some cfg, e)"
  shows "e = None \<and>
    (\<exists>options. Build FileBucketOption_zero opts = (Some options, None) \<and>
       FileBucketOption.BasePath options \<noteq> [] \<and>
       cfg = \<lparr>FileBucketConfig.BasePath = FileBucketOption.BasePath options\<rparr>)"
  using assms
  by (auto simp: NewFileBucketConfig_def split: prod.splits option.splits if_splits)

text \<open>
  Claim C3. Whatever Listers a constructor is given, a Config that it returns has its
  required fields non-empty and its range-checked field in range: a RedisConfig has
  \<open>Addr \<noteq> ""\<close> and \<open>DB \<ge> 0\<close>; a MinioConfig has non-empty \<open>Endpoint\<close>, \<open>AccessKey\<close>,
  \<open>SecretKey\<close> and \<open>BucketName\<close>; a FileBucketConfig has \<open>BasePath \<noteq> ""\<close>.
\<close>

theorem returned_Config_is_valid:
  "(NewRedisConfig ropts = Return (Some rcfg, re) \<longrightarrow>
      RedisConfig.Addr rcfg \<noteq> [] \<and> 0 \<le> sint (RedisConfig.DB rcfg)) \<and>
   (NewMinioConfig mopts = Return (Some mcfg, me) \<longrightarrow>
      MinioConfig.Endpoint mcfg \<noteq> [] \<and> MinioConfig.AccessKey mcfg \<noteq> [] \<and>
      MinioConfig.SecretKey mcfg \<noteq> [] \<and> MinioConfig.BucketName mcfg \<noteq> []) \<and>
   (NewFileBucketConfig fopts = Return (Some fcfg, fe) \<longrightarrow>
      FileBucketConfig.BasePath fcfg \<noteq> [])"
proof (intro conjI impI)
  assume "NewRedisConfig ropts = Return (Some rcfg, re)"
  from NewRedisConfig_Some [OF this]
  show "RedisConfig.Addr rcfg \<noteq> []" and "0 \<le> sint (RedisConfig.DB rcfg)" by auto
next
  assume "NewMinioConfig mopts = Return (Some mcfg, me)"
  from NewMinioConfig_Some [OF this]
  show "MinioConfig.Endpoint mcfg \<noteq> []" and "MinioConfig.AccessKey mcfg \<noteq> []"
    and "MinioConfig.SecretKey mcfg \<noteq> []" and "MinioConfig.BucketName mcfg \<noteq> []" by auto
next
  assume "NewFileBucketConfig fopts = Return (Some fcfg, fe)"
  from NewFileBucketConfig_Some [OF this]
  show "FileBucketConfig.BasePath fcfg \<noteq> []" by auto
qed

theorem returned_Config_is_valid_witness:
  "NewRedisConfig [RedisChain [Call_SetAddr ''localhost:6379'', Call_SetDB 2]] =
     Return (Some \<lparr>RedisConfig.Addr = ''localhost:6379'', RedisConfig.Password = [],
                   RedisConfig.DB = 2\<rparr>, None) \<and>
   RedisConfig.Addr \<lparr>RedisConfig.Addr = ''localhost:6379'', RedisConfig.Password = [],
                    RedisConfig.DB = 2\<rparr> \<noteq> [] \<and>
   0 \<le> sint (RedisConfig.DB \<lparr>RedisConfig.Addr = ''localhost:6379'', RedisConfig.Password = [],
                              RedisConfig.DB = 2\<rparr>) \<and>
   NewMinioConfig
     [MinioChain [Call_SetEndpoint ''e'', Call_SetAccessKey ''a'', Call_SetSecretKey ''s'',
                  Call_SetBucketName ''b'']] =
     Return (Some \<lparr>MinioConfig.Endpoint = ''e'', MinioConfig.AccessKey = ''a'',
                   MinioConfig.SecretKey = ''s'', MinioConfig.UseSSL = False,
                   MinioConfig.BucketName = ''b'', MinioConfig.Region = []\<rparr>, None) \<and>
   NewFileBucketConfig [FileBucketChain [Call_SetBasePath ''/data'']] =
     Return (Some \<lparr>FileBucketConfig.BasePath = ''/data''\<rparr>, None)"
  using returned_Config_is_valid
    [of "[RedisChain [Call_SetAddr ''localhost:6379'', Call_SetDB 2]]"
        "\<lparr>RedisConfig.Addr = ''localhost:6379'', RedisConfig.Password = [], RedisConfig.DB = 2\<rparr>"
        None
        "[MinioChain [Call_SetEndpoint ''e'', Call_SetAccessKey ''a'', Call_SetSecretKey ''s'',
                  Call_SetBucketName ''b'']]"
        "\<lparr>MinioConfig.Endpoint = ''e'', MinioConfig.AccessKey = ''a'',
                   MinioConfig.SecretKey = ''s'', MinioConfig.UseSSL = False,
                   MinioConfig.BucketName = ''b'', MinioConfig.Region = []\<rparr>"
        None
        "[FileBucketChain [Call_SetBasePath ''/data'']]"
        "\<lparr>FileBucketConfig.BasePath = ''/data''\<rparr>" None]
  by (simp add: NewRedisConfig_validated [OF Redis_chains_Build [of "[cs]" for cs, simplified]]
      NewMinioConfig_validated [OF Minio_chains_Build [of "[cs]" for cs, simplified]]
      NewFileBucketConfig_validated [OF FileBucket_chains_Build [of "[cs]" for cs, simplified]]
      RedisConfigOptions_zero_def MinioOption_zero_def FileBucketOption_zero_def)

section \<open>The scenarios of the three constructors\<close>

text \<open>
  Claim C4. \<open>NewMinioConfig\<close> on a builder on which \<open>SetEndpoint "https://x"\<close>,
  \<open>SetAccessKey "a"\<close>, \<open>SetSecretKey "b"\<close> and \<open>SetBucketName "bkt"\<close> have been
  called, and neither \<open>SetRegion\<close> nor \<open>SetUseSSL\<close>, succeeds: it returns a nil error and
  a MinioConfig with exactly those four values, \<open>UseSSL = false\<close> and \<open>Region = ""\<close>.
\<close>

theorem NewMinioConfig_four_required_fields:
  "NewMinioConfig
     [MinioOptionBuilder_List
        (SetBucketName
           (SetSecretKey (SetAccessKey (SetEndpoint NewMinioOption ''https://x'') ''a'') ''b'')
           ''bkt'')] =
   Return (Some \<lparr>MinioConfig.Endpoint = ''https://x'', MinioConfig.AccessKey = ''a'',
                 MinioConfig.SecretKey = ''b'', MinioConfig.UseSSL = False,
                 MinioConfig.BucketName = ''bkt'', MinioConfig.Region = []\<rparr>, None)"
  by (simp add: NewMinioConfig_def Build_def MinioOptionBuilder_List_def SetBucketName_def
      SetSecretKey_def SetAccessKey_def SetEndpoint_def NewMinioOption_def MinioOption_zero_def)

text \<open>
  Claim C5, amended. When the options value that Build returns to \<open>NewMinioConfig\<close>
  has an empty \<open>AccessKey\<close>, \<open>NewMinioConfig\<close> fails, returning no Config. With the
  endpoint non-empty the error is "minio access key is required", whatever the secret key,
  the bucket name, the region and the SSL flag are (valid or not); with the endpoint empty
  as well, the endpoint is checked first and the error is "minio endpoint is required".
\<close>

theorem NewMinioConfig_access_key_required:
  assumes "Build MinioOption_zero opts = (Some options, None)"
    and "MinioOption.AccessKey options = []"
  shows "(\<exists>err. NewMinioConfig opts = Return (None, Some err)) \<and>
         (if MinioOption.Endpoint options = []
          then NewMinioConfig opts = Return (None, Some (errors_New ''minio endpoint is required''))
          else NewMinioConfig opts =
                 Return (None, Some (errors_New ''minio access key is required'')))"
  using assms by (simp add: NewMinioConfig_validated)

theorem NewMinioConfig_access_key_required_witness:
  "Build MinioOption_zero
     [MinioChain [Call_SetEndpoint ''https://x'', Call_SetSecretKey ''b'',
                  Call_SetBucketName ''bkt'']] =
     (Some \<lparr>MinioOption.Endpoint = ''https://x'', MinioOption.AccessKey = [],
            MinioOption.SecretKey = ''b'', MinioOption.UseSSL = False,
            MinioOption.BucketName = ''bkt'', MinioOption.Region = []\<rparr>, None) \<and>
   NewMinioConfig
     [MinioChain [Call_SetEndpoint ''https://x'', Call_SetSecretKey ''b'',
                  Call_SetBucketName ''bkt'']] =
     Return (None, Some (errors_New ''minio access key is required''))"
proof -
  have b: "Build MinioOption_zero
     [MinioChain [Call_SetEndpoint ''https://x'', Call_SetSecretKey ''b'',
                  Call_SetBucketName ''bkt'']] =
     (Some \<lparr>MinioOption.Endpoint = ''https://x'', MinioOption.AccessKey = [],
            MinioOption.SecretKey = ''b'', MinioOption.UseSSL = False,
            MinioOption.BucketName = ''bkt'', MinioOption.Region = []\<rparr>, None)"
    using Minio_chains_Build [of "[cs]" for cs] by (simp add: MinioOption_zero_def)
  from NewMinioConfig_access_key_required [OF b] b show ?thesis by simp
qed

text \<open>
  Counterexample to claim C5 as first stated. The access-key error for every input whose
  built options have an empty \<open>AccessKey\<close> fails where the endpoint is empty as well: with only
  \<open>SetSecretKey "b"\<close> and \<open>SetBucketName "bkt"\<close> called, the built options have an
  empty \<open>AccessKey\<close>, and \<open>NewMinioConfig\<close> returns "minio endpoint is required",
  the endpoint being checked first.
\<close>

theorem NewMinioConfig_access_key_counterexample:
  "Build MinioOption_zero
     [MinioOptionBuilder_List (SetBucketName (SetSecretKey NewMinioOption ''b'') ''bkt'')] =
     (Some \<lparr>MinioOption.Endpoint = [], MinioOption.AccessKey = [],
            MinioOption.SecretKey = ''b'', MinioOption.UseSSL = False,
            MinioOption.BucketName = ''bkt'', MinioOption.Region = []\<rparr>, None) \<and>
   MinioOption.AccessKey
     \<lparr>MinioOption.Endpoint = [], MinioOption.AccessKey = [],
      MinioOption.SecretKey = ''b'', MinioOption.UseSSL = False,
      MinioOption.BucketName = ''bkt'', MinioOption.Region = []\<rparr> = [] \<and>
   NewMinioConfig
     [MinioOptionBuilder_List (SetBucketName (SetSecretKey NewMinioOption ''b'') ''bkt'')] =
     Return (None, Some (errors_New ''minio endpoint is required'')) \<and>
   NewMinioConfig
     [MinioOptionBuilder_List (SetBucketName (SetSecretKey NewMinioOption ''b'') ''bkt'')] \<noteq>
     Return (None, Some (errors_New ''minio access key is required''))"
  by (simp add: NewMinioConfig_def Build_def MinioOptionBuilder_List_def SetBucketName_def
      SetSecretKey_def NewMinioOption_def MinioOption_zero_def)

text \<open>
  Claim C6. \<open>NewRedisConfig\<close> on a builder with \<open>SetAddr "localhost:6379"\<close> and
  \<open>SetDB 0\<close> succeeds; with \<open>SetDB (-1)\<close> and the same address it fails; with
  \<open>SetAddr ""\<close> it fails with "redis address is required" whatever the database index.
  For every address and index: after the address check, the constructor succeeds exactly
  when \<open>DB \<ge> 0\<close>, so \<open>DB = 0\<close> is accepted, and the error of the other case reads
  "redis database must be greater than 0".
\<close>

theorem NewRedisConfig_address_and_database:
  "NewRedisConfig
     [RedisConfigOptionsBuilder_List
        (SetDB (SetAddr NewRedisConfigOptionsBuilder ''localhost:6379'') 0)] =
     Return (Some \<lparr>RedisConfig.Addr = ''localhost:6379'', RedisConfig.Password = [],
                   RedisConfig.DB = 0\<rparr>, None) \<and>
   NewRedisConfig
     [RedisConfigOptionsBuilder_List
        (SetDB (SetAddr NewRedisConfigOptionsBuilder ''localhost:6379'') (- 1))] =
     Return (None, Some (errors_New ''redis database must be greater than 0'')) \<and>
   NewRedisConfig
     [RedisConfigOptionsBuilder_List (SetDB (SetAddr NewRedisConfigOptionsBuilder []) db)] =
     Return (None, Some (errors_New ''redis address is required'')) \<and>
   NewRedisConfig [RedisConfigOptionsBuilder_List (SetDB NewRedisConfigOptionsBuilder db)] =
     Return (None, Some (errors_New ''redis address is required'')) \<and>
   NewRedisConfig
     [RedisConfigOptionsBuilder_List (SetDB (SetAddr NewRedisConfigOptionsBuilder addr) db)] =
     (if addr = [] then Return (None, Some (errors_New ''redis address is required''))
      else if 0 \<le> sint db
      then Return (Some \<lparr>RedisConfig.Addr = addr, RedisConfig.Password = [],
                         RedisConfig.DB = db\<rparr>, None)
      else Return (None, Some (errors_New ''redis database must be greater than 0'')))"
  by (simp add: NewRedisConfig_def Build_def RedisConfigOptionsBuilder_List_def SetDB_def
      SetAddr_def NewRedisConfigOptionsBuilder_def RedisConfigOptions_zero_def not_less)

text \<open>
  Claim C7. \<open>NewFileBucketConfig\<close>, when the built options value has \<open>BasePath = ""\<close>
  (set so, or never set), fails with "file bucket base path is required"; on
  \<open>SetBasePath "/data"\<close> it succeeds and the returned \<open>FileBucketConfig.BasePath\<close> is
  "/data". In general, on a built options value it fails so when \<open>BasePath\<close> is empty
  and otherwise returns a Config with that \<open>BasePath\<close>.
\<close>

theorem NewFileBucketConfig_base_path:
  "NewFileBucketConfig [FileBucketOptionBuilder_List (SetBasePath NewFileBucketOption [])] =
     Return (None, Some (errors_New ''file bucket base path is required'')) \<and>
   NewFileBucketConfig [FileBucketOptionBuilder_List NewFileBucketOption] =
     Return (None, Some (errors_New ''file bucket base path is required'')) \<and>
   NewFileBucketConfig
     [FileBucketOptionBuilder_List (SetBasePath NewFileBucketOption ''/data'')] =
     Return (Some \<lparr>FileBucketConfig.BasePath = ''/data''\<rparr>, None) \<and>
   (Build FileBucketOption_zero opts = (Some options, None) \<longrightarrow>
      NewFileBucketConfig opts =
        (if FileBucketOption.BasePath options = []
         then Return (None, Some (errors_New ''file bucket base path is required''))
         else Return (Some \<lparr>FileBucketConfig.BasePath = FileBucketOption.BasePath options\<rparr>,
                      None)))"
  by (simp add: NewFileBucketConfig_def Build_def FileBucketOptionBuilder_List_def
      SetBasePath_def NewFileBucketOption_def FileBucketOption_zero_def)

theorem NewFileBucketConfig_base_path_witness:
  "Build FileBucketOption_zero
     [FileBucketOptionBuilder_List (SetBasePath NewFileBucketOption ''/data'')] =
     (Some \<lparr>FileBucketOption.BasePath = ''/data''\<rparr>, None) \<and>
   NewFileBucketConfig
     [FileBucketOptionBuilder_List (SetBasePath NewFileBucketOption ''/data'')] =
     Return (Some \<lparr>FileBucketConfig.BasePath = ''/data''\<rparr>, None)"
proof -
  have b: "Build FileBucketOption_zero
     [FileBucketOptionBuilder_List (SetBasePath NewFileBucketOption ''/data'')] =
     (Some \<lparr>FileBucketOption.BasePath = ''/data''\<rparr>, None)"
    by (simp add: Build_def FileBucketOptionBuilder_List_def SetBasePath_def
        NewFileBucketOption_def FileBucketOption_zero_def)
  from NewFileBucketConfig_base_path
    [of "[FileBucketOptionBuilder_List (SetBasePath NewFileBucketOption ''/data'')]"
        "\<lparr>FileBucketOption.BasePath = ''/data''\<rparr>"] b
  show ?thesis by simp
qed

text \<open>
  Claim C8. When the options value that Build returns violates one or more rules of a
  constructor's checklist, the constructor returns the error of the first violated rule
  in checklist order (Minio: endpoint, access key, secret key, bucket name; Redis: nil
  check, address, database range; file bucket: base path). Nothing is assumed about the
  rules after the first violated one: whether they are violated too does not change the
  result. (The rules are comparisons without effects, so that they are not evaluated
  shows in nothing else.)
\<close>

theorem first_violated_rule_wins:
  "(Build MinioOption_zero mopts = (Some moptions, None) \<and>
    is_first_violated MinioChecklist i moptions \<longrightarrow>
      NewMinioConfig mopts = Return (None, Some (errors_New (snd (MinioChecklist ! i))))) \<and>
   (Build RedisConfigOptions_zero ropts = (roptions, None) \<and>
    is_first_violated RedisChecklist j roptions \<longrightarrow>
      NewRedisConfig ropts = Return (None, Some (errors_New (snd (RedisChecklist ! j))))) \<and>
   (Build FileBucketOption_zero fopts = (Some foptions, None) \<and>
    is_first_violated FileBucketChecklist k foptions \<longrightarrow>
      NewFileBucketConfig fopts =
        Return (None, Some (errors_New (snd (FileBucketChecklist ! k)))))"
proof (intro conjI impI)
  assume a: "Build MinioOption_zero mopts = (Some moptions, None) \<and>
    is_first_violated MinioChecklist i moptions"
  then have "i < 4" by (simp add: is_first_violated_def MinioChecklist_def)
  then consider "i = 0" | "i = 1" | "i = 2" | "i = 3" by linarith
  then show "NewMinioConfig mopts =
      Return (None, Some (errors_New (snd (MinioChecklist ! i))))"
  proof cases
    case 1 with a show ?thesis
      by (simp add: NewMinioConfig_validated is_first_violated_def MinioChecklist_def)
  next
    case 2 with a show ?thesis
      by (simp add: NewMinioConfig_validated is_first_violated_def MinioChecklist_def)
  next
    case 3 with a show ?thesis
      by (simp add: NewMinioConfig_validated is_first_violated_def MinioChecklist_def
          numeral_2_eq_2)
  next
    case 4 with a show ?thesis
      by (simp add: NewMinioConfig_validated is_first_violated_def MinioChecklist_def
          numeral_3_eq_3)
  qed
next
  assume a: "Build RedisConfigOptions_zero ropts = (roptions, None) \<and>
    is_first_violated RedisChecklist j roptions"
  then have "j < 3" by (simp add: is_first_violated_def RedisChecklist_def)
  then consider "j = 0" | "j = 1" | "j = 2" by linarith
  then show "NewRedisConfig ropts =
      Return (None, Some (errors_New (snd (RedisChecklist ! j))))"
  proof cases
    case 1 with a show ?thesis
      by (simp add: NewRedisConfig_def is_first_violated_def RedisChecklist_def)
  next
    case 2 with a show ?thesis
      by (cases roptions)
         (simp_all add: NewRedisConfig_def is_first_violated_def RedisChecklist_def)
  next
    case 3 with a show ?thesis
      by (cases roptions)
         (simp_all add: NewRedisConfig_def is_first_violated_def RedisChecklist_def
            numeral_2_eq_2)
  qed
next
  assume a: "Build FileBucketOption_zero fopts = (Some foptions, None) \<and>
    is_first_violated FileBucketChecklist k foptions"
  then have "k = 0" by (simp add: is_first_violated_def FileBucketChecklist_def)
  with a show "NewFileBucketConfig fopts =
      Return (None, Some (errors_New (snd (FileBucketChecklist ! k))))"
    by (simp add: NewFileBucketConfig_validated is_first_violated_def FileBucketChecklist_def)
qed

theorem first_violated_rule_wins_witness:
  "NewMinioConfig [MinioChain [Call_SetEndpoint ''https://x'', Call_SetRegion ''r'']] =
     Return (None, Some (errors_New ''minio access key is required'')) \<and>
   NewRedisConfig [RedisChain [Call_SetDB (- 1)]] =
     Return (None, Some (errors_New ''redis address is required'')) \<and>
   NewFileBucketConfig [FileBucketChain []] =
     Return (None, Some (errors_New ''file bucket base path is required''))"
proof -
  have m: "Build MinioOption_zero
      [MinioChain [Call_SetEndpoint ''https://x'', Call_SetRegion ''r'']] =
      (Some \<lparr>MinioOption.Endpoint = ''https://x'', MinioOption.AccessKey = [],
            MinioOption.SecretKey = [], MinioOption.UseSSL = False,
            MinioOption.BucketName = [], MinioOption.Region = ''r''\<rparr>, None)"
    using Minio_chains_Build [of "[cs]" for cs] by (simp add: MinioOption_zero_def)
  have r: "Build RedisConfigOptions_zero [RedisChain [Call_SetDB (- 1)]] =
      (Some \<lparr>RedisConfigOptions.Addr = [], RedisConfigOptions.Password = [],
             RedisConfigOptions.DB = - 1\<rparr>, None)"
    using Redis_chains_Build [of "[cs]" for cs] by (simp add: RedisConfigOptions_zero_def)
  have f: "Build FileBucketOption_zero [FileBucketChain []] =
      (Some \<lparr>FileBucketOption.BasePath = []\<rparr>, None)"
    using FileBucket_chains_Build [of "[cs]" for cs] by (simp add: FileBucketOption_zero_def)
  from first_violated_rule_wins
    [of "[MinioChain [Call_SetEndpoint ''https://x'', Call_SetRegion ''r'']]"
        "\<lparr>MinioOption.Endpoint = ''https://x'', MinioOption.AccessKey = [],
            MinioOption.SecretKey = [], MinioOption.UseSSL = False,
            MinioOption.BucketName = [], MinioOption.Region = ''r''\<rparr>" 1
        "[RedisChain [Call_SetDB (- 1)]]"
        "Some \<lparr>RedisConfigOptions.Addr = [], RedisConfigOptions.Password = [],
             RedisConfigOptions.DB = - 1\<rparr>" 1
        "[FileBucketChain []]" "\<lparr>FileBucketOption.BasePath = []\<rparr>" 0] m r f
  show ?thesis
    by (simp add: is_first_violated_def MinioChecklist_def RedisChecklist_def
        FileBucketChecklist_def)
qed

text \<open>
  Claim C9. Every call of a constructor returns either a Config and a nil error, or a nil
  Config and an error, never both and never neither. It returns a Config exactly when
  Build has succeeded and the options value it built passes every validation rule, and
  the Config then has exactly the fields of that options value. Otherwise the Config is
  nil, and the error is the one Build returned or, when Build has succeeded and a rule is
  violated, the message of the first violated rule.
\<close>

theorem Config_or_error_never_both:
  "((\<exists>cfg options. NewRedisConfig ropts = Return (Some cfg, None) \<and>
        Build RedisConfigOptions_zero ropts = (Some options, None) \<and>
        RedisConfigOptions.Addr options \<noteq> [] \<and> 0 \<le> sint (RedisConfigOptions.DB options) \<and>
        cfg = \<lparr>RedisConfig.Addr = RedisConfigOptions.Addr options,
               RedisConfig.Password = RedisConfigOptions.Password options,
               RedisConfig.DB = RedisConfigOptions.DB options\<rparr>) \<or>
    (\<exists>err. NewRedisConfig ropts = Return (None, Some err) \<and>
        (Build RedisConfigOptions_zero ropts = (None, Some err) \<or>
         (\<exists>options. Build RedisConfigOptions_zero ropts = (Some options, None) \<and>
            (RedisConfigOptions.Addr options = [] \<or> sint (RedisConfigOptions.DB options) < 0) \<and>
            err = errors_New
              (if RedisConfigOptions.Addr options = [] then ''redis address is required''
               else ''redis database must be greater than 0''))))) \<and>
   ((\<exists>cfg options. NewMinioConfig mopts = Return (Some cfg, None) \<and>
        Build MinioOption_zero mopts = (Some options, None) \<and>
        MinioOption.Endpoint options \<noteq> [] \<and> MinioOption.AccessKey options \<noteq> [] \<and>
        MinioOption.SecretKey options \<noteq> [] \<and> MinioOption.BucketName options \<noteq> [] \<and>
        cfg = \<lparr>MinioConfig.Endpoint = MinioOption.Endpoint options,
               MinioConfig.AccessKey = MinioOption.AccessKey options,
               MinioConfig.SecretKey = MinioOption.SecretKey options,
               MinioConfig.UseSSL = MinioOption.UseSSL options,
               MinioConfig.BucketName = MinioOption.BucketName options,
               MinioConfig.Region = MinioOption.Region options\<rparr>) \<or>
    (\<exists>err. NewMinioConfig mopts = Return (None, Some err) \<and>
        (Build MinioOption_zero mopts = (None, Some err) \<or>
         (\<exists>options. Build MinioOption_zero mopts = (Some options, None) \<and>
            (MinioOption.Endpoint options = [] \<or> MinioOption.AccessKey options = [] \<or>
             MinioOption.SecretKey options = [] \<or> MinioOption.BucketName options = []) \<and>
            err = errors_New
              (if MinioOption.Endpoint options = [] then ''minio endpoint is required''
               else if MinioOption.AccessKey options = [] then ''minio access key is required''
               else if MinioOption.SecretKey options = [] then ''minio secret key is required''
               else ''minio bucket name is required''))))) \<and>
   ((\<exists>cfg options. NewFileBucketConfig fopts = Return (Some cfg, None) \<and>
        Build FileBucketOption_zero fopts = (Some options, None) \<and>
        FileBucketOption.BasePath options \<noteq> [] \<and>
        cfg = \<lparr>FileBucketConfig.BasePath = FileBucketOption.BasePath options\<rparr>) \<or>
    (\<exists>err. NewFileBucketConfig fopts = Return (None, Some err) \<and>
        (Build FileBucketOption_zero fopts = (None, Some err) \<or>
         (\<exists>options. Build FileBucketOption_zero fopts = (Some options, None) \<and>
            FileBucketOption.BasePath options = [] \<and>
            err = errors_New ''file bucket base path is required''))))"
  (is "?redis \<and> ?minio \<and> ?file")
proof (intro conjI)
  from Build_result [of RedisConfigOptions_zero ropts]
  consider (built) args where "Build RedisConfigOptions_zero ropts = (Some args, None)"
    | (failed) err where "Build RedisConfigOptions_zero ropts = (None, Some err)"
    by blast
  then show ?redis
  proof cases
    case built
    show ?thesis
      by (cases "RedisConfigOptions.Addr args = []";
          cases "sint (RedisConfigOptions.DB args) < 0")
         (simp_all add: NewRedisConfig_validated [OF built] built)
  next
    case failed
    then show ?thesis by (simp add: NewRedisConfig_Build_error)
  qed
next
  from Build_result [of MinioOption_zero mopts]
  consider (built) args where "Build MinioOption_zero mopts = (Some args, None)"
    | (failed) err where "Build MinioOption_zero mopts = (None, Some err)"
    by blast
  then show ?minio
  proof cases
    case built
    show ?thesis
      by (cases "MinioOption.Endpoint args = []"; cases "MinioOption.AccessKey args = []";
          cases "MinioOption.SecretKey args = []"; cases "MinioOption.BucketName args = []")
         (simp_all add: NewMinioConfig_validated [OF built] built)
  next
    case failed
    then show ?thesis by (simp add: NewMinioConfig_Build_error)
  qed
next
  from Build_result [of FileBucketOption_zero fopts]
  consider (built) args where "Build FileBucketOption_zero fopts = (Some args, None)"
    | (failed) err where "Build FileBucketOption_zero fopts = (None, Some err)"
    by blast
  then show ?file
  proof cases
    case built
    show ?thesis
      by (cases "FileBucketOption.BasePath args = []")
         (simp_all add: NewFileBucketConfig_validated [OF built] built)
  next
    case failed
    then show ?thesis by (simp add: NewFileBucketConfig_Build_error)
  qed
qed

section \<open>Builders made by the setters alone\<close>

text \<open>
  Claim C10. The mutator that a setter call appends returns nil on every options value,
  for each of the ten setters and whatever builder the call is made on; so do all
  mutators of a chain of setter calls on a new builder. Hence Build over such chains
  returns an options value and a nil error, and a constructor called on them returns a
  Config or one of its validation errors (never an error of Build, nor the nil-options
  error of \<open>NewRedisConfig\<close>).
\<close>

theorem setter_mutators_return_nil:
  "fst (last (RedisConfigOptionsBuilder.Opts (RedisCall rb rc)) rargs) = None \<and>
   fst (last (MinioOptionBuilder.Opts (MinioCall mb mc)) margs) = None \<and>
   fst (last (FileBucketOptionBuilder.Opts (FileBucketCall fb fc)) fargs) = None \<and>
   list_all (\<lambda>m. fst (m rargs) = None) (RedisChain rcalls) \<and>
   list_all (\<lambda>m. fst (m margs) = None) (MinioChain mcalls) \<and>
   list_all (\<lambda>m. fst (m fargs) = None) (FileBucketChain fcalls) \<and>
   (\<exists>args. Build RedisConfigOptions_zero (map RedisChain rcallss) = (Some args, None)) \<and>
   (\<exists>args. Build MinioOption_zero (map MinioChain mcallss) = (Some args, None)) \<and>
   (\<exists>args. Build FileBucketOption_zero (map FileBucketChain fcallss) = (Some args, None)) \<and>
   ((\<exists>cfg. NewRedisConfig (map RedisChain rcallss) = Return (Some cfg, None)) \<or>
    (\<exists>err. NewRedisConfig (map RedisChain rcallss) = Return (None, Some err) \<and>
       err \<in> set [errors_New ''redis address is required'',
                  errors_New ''redis database must be greater than 0''])) \<and>
   ((\<exists>cfg. NewMinioConfig (map MinioChain mcallss) = Return (Some cfg, None)) \<or>
    (\<exists>err. NewMinioConfig (map MinioChain mcallss) = Return (None, Some err) \<and>
       err \<in> set [errors_New ''minio endpoint is required'',
                  errors_New ''minio access key is required'',
                  errors_New ''minio secret key is required'',
                  errors_New ''minio bucket name is required''])) \<and>
   ((\<exists>cfg. NewFileBucketConfig (map FileBucketChain fcallss) = Return (Some cfg, None)) \<or>
    (\<exists>err. NewFileBucketConfig (map FileBucketChain fcallss) = Return (None, Some err) \<and>
       err \<in> set [errors_New ''file bucket base path is required'']))"
  (is "?r1 \<and> ?m1 \<and> ?f1 \<and> ?r2 \<and> ?m2 \<and> ?f2 \<and> ?r3 \<and> ?m3 \<and> ?f3 \<and> ?r4 \<and> ?m4 \<and> ?f4")
proof (intro conjI)
  show ?r1 by (simp add: RedisCall_Opts)
  show ?m1 by (simp add: MinioCall_Opts)
  show ?f1 by (simp add: FileBucketCall_Opts)
  show ?r2 by (simp add: RedisChain_mutators list_all_iff)
  show ?m2 by (simp add: MinioChain_mutators list_all_iff)
  show ?f2 by (simp add: FileBucketChain_mutators list_all_iff)
  show ?r3 by (simp add: Redis_chains_Build)
  show ?m3 by (simp add: Minio_chains_Build)
  show ?f3 by (simp add: FileBucket_chains_Build)
  let ?ra = "foldl (\<lambda>a c. RedisAssign c a) RedisConfigOptions_zero (concat rcallss)"
  show ?r4
    by (cases "RedisConfigOptions.Addr ?ra = []"; cases "sint (RedisConfigOptions.DB ?ra) < 0")
       (simp_all add: NewRedisConfig_validated [OF Redis_chains_Build])
  let ?ma = "foldl (\<lambda>a c. MinioAssign c a) MinioOption_zero (concat mcallss)"
  show ?m4
    by (cases "MinioOption.Endpoint ?ma = []"; cases "MinioOption.AccessKey ?ma = []";
        cases "MinioOption.SecretKey ?ma = []"; cases "MinioOption.BucketName ?ma = []")
       (simp_all add: NewMinioConfig_validated [OF Minio_chains_Build])
  let ?fa = "foldl (\<lambda>a c. FileBucketAssign c a) FileBucketOption_zero (concat fcallss)"
  show ?f4
    by (cases "FileBucketOption.BasePath ?fa = []")
       (simp_all add: NewFileBucketConfig_validated [OF FileBucket_chains_Build])
qed

end
